theory Spec2Isabelle
  imports Main "HOL-Library.Word"
begin

section \<open>The code buffer of VIXL: \<^verbatim>\<open>src/code-buffer-vixl.cc\<close>\<close>

text \<open>
  \<^verbatim>\<open>CodeBuffer\<close> holds two raw pointers (\<^verbatim>\<open>buffer_\<close>, the base of the region, and
  \<^verbatim>\<open>cursor_\<close>, the next write position), the byte length \<^verbatim>\<open>capacity_\<close> of the region and
  two flags. The pointers are absolute addresses, and \<^verbatim>\<open>Align\<close> rounds the address up,
  so the embedding keeps addresses and an explicit byte store instead of offsets into a
  private array.

  Addresses and \<^verbatim>\<open>size_t\<close> quantities are natural numbers; a pointer and a
  \<^verbatim>\<open>size_t\<close> of the machine are below \<open>2 ^ 64\<close>. \<^verbatim>\<open>UpdateData\<close> forms its pointers
  from an offset and a size that the caller chooses, before anything is checked, so
  its two pointer sums are taken modulo \<open>2 ^ 64\<close>, as the machine takes them. The
  other operations advance the cursor; when there is room for the amount between the
  cursor and the end of the region the sum is the sum of the machine, since a region
  that exists in a 64-bit address space ends at or below \<open>2 ^ 64\<close>. A call without
  room that a release build lets through writes past the region; the model follows
  it through the flat address space and takes that sum as it is. The
  parameter \<^verbatim>\<open>int n\<close> of \<^verbatim>\<open>EmitZeroedBytes\<close> is a 32-bit word read as a signed value,
  because the code converts it to \<^verbatim>\<open>size_t\<close>, a conversion the language defines and
  that changes the magnitude of a negative value.
\<close>

subsection \<open>Data model\<close>

type_synonym addr = nat
type_synonym byte = "8 word"
type_synonym memory = "addr \<Rightarrow> byte"
type_synonym c_int = "32 word"

abbreviation (input) NULL :: addr where
  "NULL \<equiv> 0"

text \<open>
  The five members of the class, in the order of the constructors' initialiser lists,
  and \<open>mem\<close>, the bytes of the address space the two pointers point into. The
  members are \<^verbatim>\<open>buffer_\<close>, \<^verbatim>\<open>managed_\<close>, \<^verbatim>\<open>cursor_\<close>, \<^verbatim>\<open>dirty_\<close> and \<^verbatim>\<open>capacity_\<close> in the
  source; a name of Isabelle cannot end in an underscore.
\<close>

record CodeBuffer =
  buffer :: addr
  managed :: bool
  cursor :: addr
  dirty :: bool
  capacity :: nat
  mem :: memory

text \<open>
  The build-time choices of the file: the allocator (\<^verbatim>\<open>VIXL_CODE_BUFFER_MALLOC\<close> or
  \<^verbatim>\<open>VIXL_CODE_BUFFER_MMAP\<close>; with neither the file does not compile) and
  \<^verbatim>\<open>VIXL_DEBUG\<close>, the boolean parameter \<open>vixl_debug\<close> of every operation that the
  build changes. The \<^verbatim>\<open>_WIN32\<close> branches are left out: the one in the constructor
  assigns to a name \<^verbatim>\<open>buffer\<close> that the file does not declare.
\<close>

datatype allocator = VIXL_CODE_BUFFER_MALLOC | VIXL_CODE_BUFFER_MMAP

text \<open>
  The calls into the C library and the operating system that acquire and release the
  region. What \<^verbatim>\<open>malloc\<close> and \<^verbatim>\<open>mmap\<close> return is not decided by this file, so the
  environment is a parameter: a function from the call to the address it returns.
\<close>

datatype acquire = Malloc nat | Mmap nat
datatype release = Free addr | Munmap addr nat

text \<open>
  The ways an operation can stop early: a failed \<^verbatim>\<open>VIXL_CHECK\<close>, a failed
  \<^verbatim>\<open>VIXL_ASSERT\<close>, and the C++ exception \<^verbatim>\<open>std::runtime_error\<close> that the source
  throws itself with a \<^verbatim>\<open>throw\<close> statement and that a caller can catch.
\<close>

datatype failure =
    Check_Failed
  | Assert_Failed
  | Runtime_Error string

text \<open>
  Modelled from the spec: the macros \<^verbatim>\<open>VIXL_CHECK\<close> and \<^verbatim>\<open>VIXL_ASSERT\<close> are defined
  in \<^verbatim>\<open>globals-vixl.h\<close>, which is not among the sources. The spec has their failure
  as a process-terminating assertion, not a recoverable exception. It has the
  allocation check (\<^verbatim>\<open>VIXL_CHECK\<close> in the source) fail fatally in every build, and it
  has the debug mode, the one that also turns the zero-fill of \<^verbatim>\<open>Reset\<close> on, enable
  the stricter assertions such as the alignment and the dirty-on-destroy checks
  (\<^verbatim>\<open>VIXL_ASSERT\<close> in the source): outside a debug build a \<^verbatim>\<open>VIXL_ASSERT\<close> checks
  nothing. \<open>None\<close> means that execution goes on.
\<close>

definition VIXL_CHECK :: "bool \<Rightarrow> failure option" where
  "VIXL_CHECK condition = (if condition then None else Some Check_Failed)"

definition VIXL_ASSERT :: "bool \<Rightarrow> bool \<Rightarrow> failure option" where
  "VIXL_ASSERT vixl_debug condition =
     (if vixl_debug \<and> \<not> condition then Some Assert_Failed else None)"

text \<open>
  Modelled from the spec: which failures end the process. The two assertion macros do
  (see above); a thrown \<^verbatim>\<open>std::runtime_error\<close> is an exception of the language and
  ends the process only when nothing catches it.
\<close>

fun terminates_process :: "failure \<Rightarrow> bool" where
  "terminates_process Check_Failed = True"
| "terminates_process Assert_Failed = True"
| "terminates_process (Runtime_Error msg) = False"

text \<open>
  A member function either returns, leaving the object in a new state (\<open>Inr\<close>), or
  stops with a failure; the state at the point of failure is kept (\<open>Inl\<close>), since
  an exception leaves the object alive.
\<close>

type_synonym outcome = "(failure \<times> CodeBuffer) + CodeBuffer"

subsection \<open>The C library: \<^verbatim>\<open>memcpy\<close> and \<^verbatim>\<open>memset\<close>\<close>

text \<open>
  The source of a \<^verbatim>\<open>memcpy\<close> is a \<^verbatim>\<open>const void*\<close> with a byte count; it is given as
  the list of the bytes readable there. Reading more bytes than the source has is
  undefined in C, and what the theorems below say about copied bytes is said for
  \<open>sz \<le> length data\<close>.
\<close>

definition memcpy :: "memory \<Rightarrow> addr \<Rightarrow> byte list \<Rightarrow> nat \<Rightarrow> memory" where
  "memcpy m dst src n = (\<lambda>a. if dst \<le> a \<and> a < dst + n then src ! (a - dst) else m a)"

definition memset :: "memory \<Rightarrow> addr \<Rightarrow> byte \<Rightarrow> nat \<Rightarrow> memory" where
  "memset m dst c n = (\<lambda>a. if dst \<le> a \<and> a < dst + n then c else m a)"

subsection \<open>Conversions between \<^verbatim>\<open>int\<close>, \<^verbatim>\<open>size_t\<close> and pointers\<close>

text \<open>\<^verbatim>\<open>int\<close> to \<^verbatim>\<open>size_t\<close> (64 bits): the value modulo \<open>2 ^ 64\<close>.\<close>

definition size_t_of_int :: "c_int \<Rightarrow> nat" where
  "size_t_of_int n = nat (sint n mod 2 ^ 64)"

text \<open>\<^verbatim>\<open>static_cast<int>\<close> of a \<^verbatim>\<open>size_t\<close>: the low 32 bits.\<close>

definition int_of_size_t :: "nat \<Rightarrow> c_int" where
  "int_of_size_t n = word_of_nat n"

text \<open>\<^verbatim>\<open>cursor_ += n\<close> with \<^verbatim>\<open>n\<close> an \<^verbatim>\<open>int\<close>: the address moves by the signed value.\<close>

definition ptr_add_int :: "addr \<Rightarrow> c_int \<Rightarrow> addr" where
  "ptr_add_int p n = nat (int p + sint n)"

text \<open>
  A pointer plus a \<^verbatim>\<open>size_t\<close> on the 64-bit machine, for a sum that nothing has
  bounded: the address modulo \<open>2 ^ 64\<close>.
\<close>

definition ptr_add :: "addr \<Rightarrow> nat \<Rightarrow> addr" where
  "ptr_add p n = (p + n) mod 2 ^ 64"

subsection \<open>What the headers declare\<close>

text \<open>
  Modelled from the spec: \<^verbatim>\<open>IsDirty\<close> and \<^verbatim>\<open>SetClean\<close> are inline members declared in
  \<^verbatim>\<open>code-buffer-vixl.h\<close>, which is not among the sources. The spec has \<open>dirty\<close> as a
  boolean that destruction requires to be false and that reset clears.
\<close>

definition IsDirty :: "CodeBuffer \<Rightarrow> bool" where
  "IsDirty b = dirty b"

definition SetClean :: "CodeBuffer \<Rightarrow> CodeBuffer" where
  "SetClean b = b\<lparr>dirty := False\<rparr>"

text \<open>
  Modelled from the spec: \<^verbatim>\<open>GetCursorOffset\<close>, \<^verbatim>\<open>GetRemainingBytes\<close> and
  \<^verbatim>\<open>HasSpaceFor\<close> are inline members of the missing header. The spec has the cursor as
  an offset into the region and asks \<^verbatim>\<open>EmitData\<close> for at least \<open>size\<close> bytes of
  remaining capacity from the cursor to the end of the region.
\<close>

definition GetCursorOffset :: "CodeBuffer \<Rightarrow> nat" where
  "GetCursorOffset b = cursor b - buffer b"

definition GetRemainingBytes :: "CodeBuffer \<Rightarrow> nat" where
  "GetRemainingBytes b = (buffer b + capacity b) - cursor b"

definition HasSpaceFor :: "CodeBuffer \<Rightarrow> nat \<Rightarrow> bool" where
  "HasSpaceFor b amount = (amount \<le> GetRemainingBytes b)"

text \<open>
  Modelled from the spec: \<^verbatim>\<open>EnsureSpaceFor\<close> is an inline member of the missing
  header. The spec has \<^verbatim>\<open>EmitZeroedBytes\<close> fail the same way as \<^verbatim>\<open>EmitData\<close> when fewer
  than \<open>n\<close> bytes remain.
\<close>

definition EnsureSpaceFor :: "bool \<Rightarrow> CodeBuffer \<Rightarrow> nat \<Rightarrow> outcome" where
  "EnsureSpaceFor vixl_debug b amount =
     (case VIXL_ASSERT vixl_debug (HasSpaceFor b amount) of
        Some f \<Rightarrow> Inl (f, b)
      | None \<Rightarrow> Inr b)"

text \<open>
  Modelled from the spec: \<^verbatim>\<open>IsWordAligned\<close> and \<^verbatim>\<open>AlignUp\<close> are templates of
  \<^verbatim>\<open>utils-vixl.h\<close>, which is not among the sources. The spec has word alignment as
  divisibility of the address by 4, and alignment as the move up to the next multiple
  of the boundary with the smallest padding.
\<close>

definition IsWordAligned :: "addr \<Rightarrow> bool" where
  "IsWordAligned p = (p mod 4 = 0)"

definition AlignUp :: "addr \<Rightarrow> nat \<Rightarrow> addr" where
  "AlignUp p alignment = ((p + (alignment - 1)) div alignment) * alignment"

subsection \<open>Construction and destruction\<close>

text \<open>
  \<^verbatim>\<open>CodeBuffer::CodeBuffer(size_t capacity)\<close>. \<open>env\<close> answers the allocation call,
  \<open>m\<close> is the memory at the time of the call, \<open>vixl_debug\<close> is \<^verbatim>\<open>VIXL_DEBUG\<close>, here
  and in every operation below.
\<close>

definition allocate :: "allocator \<Rightarrow> nat \<Rightarrow> acquire" where
  "allocate alloc cap =
     (case alloc of
        VIXL_CODE_BUFFER_MALLOC \<Rightarrow> Malloc cap
      | VIXL_CODE_BUFFER_MMAP \<Rightarrow> Mmap cap)"

definition CodeBuffer_create ::
  "bool \<Rightarrow> allocator \<Rightarrow> (acquire \<Rightarrow> addr) \<Rightarrow> memory \<Rightarrow> nat \<Rightarrow> failure + CodeBuffer" where
  "CodeBuffer_create vixl_debug alloc env m cap =
     (let b = \<lparr>buffer = NULL, managed = True, cursor = NULL, dirty = False,
                capacity = cap, mem = m\<rparr>
      in if capacity b = 0 then Inr b
         else
           let b1 = b\<lparr>buffer := env (allocate alloc (capacity b))\<rparr>
           in case VIXL_CHECK (buffer b1 \<noteq> NULL) of
                Some f \<Rightarrow> Inl f
              | None \<Rightarrow>
                  (case VIXL_ASSERT vixl_debug (IsWordAligned (buffer b1)) of
                     Some f \<Rightarrow> Inl f
                   | None \<Rightarrow> Inr (b1\<lparr>cursor := buffer b1\<rparr>)))"

text \<open>\<^verbatim>\<open>CodeBuffer::CodeBuffer(byte* buffer, size_t capacity)\<close>.\<close>

definition CodeBuffer_wrap :: "bool \<Rightarrow> addr \<Rightarrow> memory \<Rightarrow> nat \<Rightarrow> failure + CodeBuffer" where
  "CodeBuffer_wrap vixl_debug buf m cap =
     (let b = \<lparr>buffer = buf, managed = False, cursor = buf, dirty = False,
                capacity = cap, mem = m\<rparr>
      in case VIXL_ASSERT vixl_debug (buffer b \<noteq> NULL) of
           Some f \<Rightarrow> Inl f
         | None \<Rightarrow> Inr b)"

text \<open>
  \<^verbatim>\<open>CodeBuffer::~CodeBuffer()\<close>. The result is the release call the destructor makes,
  if it makes one.
\<close>

definition CodeBuffer_destroy ::
  "bool \<Rightarrow> allocator \<Rightarrow> CodeBuffer \<Rightarrow> failure + release option" where
  "CodeBuffer_destroy vixl_debug alloc b =
     (case VIXL_ASSERT vixl_debug (\<not> IsDirty b) of
        Some f \<Rightarrow> Inl f
      | None \<Rightarrow>
          if managed b then
            Inr (Some (case alloc of
                         VIXL_CODE_BUFFER_MALLOC \<Rightarrow> Free (buffer b)
                       | VIXL_CODE_BUFFER_MMAP \<Rightarrow> Munmap (buffer b) (capacity b)))
          else Inr None)"

subsection \<open>Writing\<close>

text \<open>\<^verbatim>\<open>CodeBuffer::EmitData(const void* data, size_t size)\<close>.\<close>

definition EmitData :: "bool \<Rightarrow> CodeBuffer \<Rightarrow> byte list \<Rightarrow> nat \<Rightarrow> outcome" where
  "EmitData vixl_debug b data sz =
     (case VIXL_ASSERT vixl_debug (HasSpaceFor b sz) of
        Some f \<Rightarrow> Inl (f, b)
      | None \<Rightarrow>
          let b1 = b\<lparr>dirty := True\<rparr>;
              b2 = b1\<lparr>mem := memcpy (mem b1) (cursor b1) data sz\<rparr>
          in Inr (b2\<lparr>cursor := cursor b2 + sz\<rparr>))"

text \<open>
  \<^verbatim>\<open>CodeBuffer::UpdateData(size_t offset, const void* data, size_t size)\<close>. The flag
  is set before the assertion is evaluated, and both pointer sums wrap around.
\<close>

definition UpdateData :: "bool \<Rightarrow> CodeBuffer \<Rightarrow> nat \<Rightarrow> byte list \<Rightarrow> nat \<Rightarrow> outcome" where
  "UpdateData vixl_debug b offset data sz =
     (let b1 = b\<lparr>dirty := True\<rparr>;
          dst = ptr_add (buffer b1) offset
      in case VIXL_ASSERT vixl_debug (ptr_add dst sz \<le> cursor b1) of
           Some f \<Rightarrow> Inl (f, b1)
         | None \<Rightarrow> Inr (b1\<lparr>mem := memcpy (mem b1) dst data sz\<rparr>))"

text \<open>\<^verbatim>\<open>CodeBuffer::EmitZeroedBytes(int n)\<close>.\<close>

definition EmitZeroedBytes :: "bool \<Rightarrow> CodeBuffer \<Rightarrow> c_int \<Rightarrow> outcome" where
  "EmitZeroedBytes vixl_debug b n =
     (case EnsureSpaceFor vixl_debug b (size_t_of_int n) of
        Inl e \<Rightarrow> Inl e
      | Inr b0 \<Rightarrow>
          let b1 = b0\<lparr>dirty := True\<rparr>;
              b2 = b1\<lparr>mem := memset (mem b1) (cursor b1) 0 (size_t_of_int n)\<rparr>
          in Inr (b2\<lparr>cursor := ptr_add_int (cursor b2) n\<rparr>))"

text \<open>\<^verbatim>\<open>CodeBuffer::Align()\<close>.\<close>

definition Align :: "bool \<Rightarrow> CodeBuffer \<Rightarrow> outcome" where
  "Align vixl_debug b =
     (let end_ptr = AlignUp (cursor b) 4;
          padding_size = end_ptr - cursor b
      in case VIXL_ASSERT vixl_debug (padding_size \<le> 4) of
           Some f \<Rightarrow> Inl (f, b)
         | None \<Rightarrow> EmitZeroedBytes vixl_debug b (int_of_size_t padding_size))"

subsection \<open>Reset and Grow\<close>

text \<open>\<^verbatim>\<open>CodeBuffer::Reset()\<close>.\<close>

definition Reset :: "bool \<Rightarrow> CodeBuffer \<Rightarrow> CodeBuffer" where
  "Reset vixl_debug b =
     (let b1 = (if vixl_debug \<and> managed b
                then b\<lparr>mem := memset (mem b) (buffer b) 0 (capacity b)\<rparr>
                else b);
          b2 = b1\<lparr>cursor := buffer b1\<rparr>
      in SetClean b2)"

text \<open>\<^verbatim>\<open>CodeBuffer::Grow(size_t new_capacity)\<close>: a \<^verbatim>\<open>throw\<close> and nothing else.\<close>

definition Grow :: "CodeBuffer \<Rightarrow> nat \<Rightarrow> outcome" where
  "Grow b new_capacity =
     Inl (Runtime_Error ''[Vixl] Grow function was called somehow'', b)"

subsection \<open>Notions the properties are stated with\<close>

text \<open>
  The cursor lies inside the region or at its end: the invariant
  \<open>0 \<le> cursor offset \<le> capacity\<close>, on addresses.
\<close>

definition cursor_in_region :: "CodeBuffer \<Rightarrow> bool" where
  "cursor_in_region b = (buffer b \<le> cursor b \<and> cursor b \<le> buffer b + capacity b)"

text \<open>The bytes at the addresses from \<open>lo\<close> up to, not including, \<open>hi\<close>.\<close>

definition read_region :: "CodeBuffer \<Rightarrow> addr \<Rightarrow> addr \<Rightarrow> byte list" where
  "read_region b lo hi = map (mem b) [lo..<hi]"

text \<open>
  A caller that issues \<^verbatim>\<open>EmitData\<close> calls one after the other, each with its source
  bytes and its size, and stops at the first failure.
\<close>

fun EmitData_calls :: "bool \<Rightarrow> CodeBuffer \<Rightarrow> (byte list \<times> nat) list \<Rightarrow> outcome" where
  "EmitData_calls vixl_debug b [] = Inr b"
| "EmitData_calls vixl_debug b ((data, sz) # calls) =
     (case EmitData vixl_debug b data sz of
        Inl e \<Rightarrow> Inl e
      | Inr b' \<Rightarrow> EmitData_calls vixl_debug b' calls)"

text \<open>The operations that mutate a buffer, as values, and a call of one of them.\<close>

datatype operation =
    Op_EmitData "byte list" nat
  | Op_EmitZeroedBytes c_int
  | Op_Align
  | Op_UpdateData nat "byte list" nat
  | Op_Reset

fun perform :: "bool \<Rightarrow> CodeBuffer \<Rightarrow> operation \<Rightarrow> outcome" where
  "perform vixl_debug b (Op_EmitData data sz) = EmitData vixl_debug b data sz"
| "perform vixl_debug b (Op_EmitZeroedBytes n) = EmitZeroedBytes vixl_debug b n"
| "perform vixl_debug b Op_Align = Align vixl_debug b"
| "perform vixl_debug b (Op_UpdateData offset data sz) = UpdateData vixl_debug b offset data sz"
| "perform vixl_debug b Op_Reset = Inr (Reset vixl_debug b)"

text \<open>
  The precondition of each operation in the words of the spec: \<open>size\<close> remaining
  bytes for \<^verbatim>\<open>EmitData\<close>, \<open>n\<close> remaining bytes for \<^verbatim>\<open>EmitZeroedBytes\<close> (a count of
  bytes, so not negative), room for the padding up to the next address that is a
  multiple of 4 for \<^verbatim>\<open>Align\<close>, a patch that ends at or before the cursor for
  \<^verbatim>\<open>UpdateData\<close>, none for \<^verbatim>\<open>Reset\<close>.
\<close>

fun precondition :: "CodeBuffer \<Rightarrow> operation \<Rightarrow> bool" where
  "precondition b (Op_EmitData data sz) = (sz \<le> capacity b - GetCursorOffset b)"
| "precondition b (Op_EmitZeroedBytes n) =
     (0 \<le> sint n \<and> nat (sint n) \<le> capacity b - GetCursorOffset b)"
| "precondition b Op_Align =
     ((4 - cursor b mod 4) mod 4 \<le> capacity b - GetCursorOffset b)"
| "precondition b (Op_UpdateData offset data sz) = (offset + sz \<le> GetCursorOffset b)"
| "precondition b Op_Reset = True"

text \<open>
  Which release call gives back what an allocation call acquired: \<^verbatim>\<open>free\<close> for
  \<^verbatim>\<open>malloc\<close>, \<^verbatim>\<open>munmap\<close> of the same length for \<^verbatim>\<open>mmap\<close>.
\<close>

fun gives_back :: "release \<Rightarrow> acquire \<Rightarrow> bool" where
  "gives_back (Free p) (Malloc n) = True"
| "gives_back (Munmap p len) (Mmap n) = (len = n)"
| "gives_back (Free p) (Mmap n) = False"
| "gives_back (Munmap p len) (Malloc n) = False"

subsection \<open>Concrete buffers\<close>

text \<open>
  A memory of zero bytes; an allocator that answers every call with the address 4096;
  the owned buffer of 16 bytes it leads to; a borrowed region of 16 bytes that starts
  at the odd address 4097.
\<close>

definition zeroed :: memory where
  "zeroed a = 0"

definition env_4096 :: "acquire \<Rightarrow> addr" where
  "env_4096 call = 4096"

definition owned_16 :: CodeBuffer where
  "owned_16 = \<lparr>buffer = 4096, managed = True, cursor = 4096, dirty = False,
                capacity = 16, mem = zeroed\<rparr>"

definition borrowed_16 :: CodeBuffer where
  "borrowed_16 = \<lparr>buffer = 4097, managed = False, cursor = 4097, dirty = False,
                   capacity = 16, mem = zeroed\<rparr>"

section \<open>Auxiliary facts\<close>

lemma upt_split: "lo \<le> mid \<Longrightarrow> mid \<le> hi \<Longrightarrow> [lo..<hi] = [lo..<mid] @ [mid..<hi]"
  using upt_add_eq_append [of lo mid "hi - mid"] by simp

lemma small_cases: "k \<le> 4 \<Longrightarrow> k = 0 \<or> k = 1 \<or> k = 2 \<or> k = 3 \<or> k = (4::nat)"
  by arith

lemma size_t_of_int_small: "k \<le> 4 \<Longrightarrow> size_t_of_int (int_of_size_t k) = k"
  using small_cases [of k] by (auto simp: size_t_of_int_def int_of_size_t_def)

lemma ptr_add_int_small: "k \<le> 4 \<Longrightarrow> ptr_add_int p (int_of_size_t k) = p + k"
  using small_cases [of k] by (auto simp: ptr_add_int_def int_of_size_t_def)

lemma size_t_of_int_nonneg:
  assumes "0 \<le> sint n"
  shows "size_t_of_int n = nat (sint n)"
proof -
  have "sint n < 2 ^ (LENGTH(32) - 1)" by (rule sint_lt)
  then have "sint n < 2 ^ 64" by simp
  with assms show ?thesis by (simp add: size_t_of_int_def)
qed

lemma ptr_add_int_nonneg: "0 \<le> sint n \<Longrightarrow> ptr_add_int p n = p + nat (sint n)"
  by (simp add: ptr_add_int_def nat_add_distrib)

lemma AlignUp_4_ge: "p \<le> AlignUp p 4"
  unfolding AlignUp_def by simp

lemma AlignUp_4_pad: "AlignUp p 4 - p \<le> 3"
  unfolding AlignUp_def by simp

lemma AlignUp_4_aligned: "AlignUp p 4 mod 4 = 0"
  unfolding AlignUp_def by simp

lemma AlignUp_4_least: "p \<le> q \<Longrightarrow> q mod 4 = 0 \<Longrightarrow> AlignUp p 4 \<le> q"
  unfolding AlignUp_def by simp presburger

lemma AlignUp_4_fixed: "p mod 4 = 0 \<Longrightarrow> AlignUp p 4 = p"
  unfolding AlignUp_def by simp presburger

lemma AlignUp_4_offset:
  assumes "base mod 4 = 0" and "base \<le> p"
  shows "AlignUp p 4 - base = AlignUp (p - base) 4"
proof -
  from assms(1) have "4 dvd base" by (simp add: dvd_eq_mod_eq_0)
  then obtain k where k: "base = 4 * k" by (auto elim: dvdE)
  define d where "d = p - base"
  with assms(2) k have p: "p = 4 * k + d" by simp
  have "(p + 3) div 4 = k + (d + 3) div 4"
    unfolding p by (simp add: add.assoc)
  then have "((p + 3) div 4) * 4 - base = ((p - base + 3) div 4) * 4"
    by (simp add: k d_def [symmetric] p add_mult_distrib)
  then show ?thesis by (simp add: AlignUp_def)
qed

lemma AlignUp_4_padding: "AlignUp p 4 - p = (4 - p mod 4) mod 4"
proof -
  define q r where "q = p div 4" and "r = p mod 4"
  have p: "p = 4 * q + r" and r: "r < 4" by (simp_all add: q_def r_def)
  have d: "(p + 3) div 4 = q + (r + 3) div 4"
    unfolding p by (simp add: add.assoc)
  from r have "r = 0 \<or> r = 1 \<or> r = 2 \<or> r = 3" by arith
  then have "((p + 3) div 4) * 4 - p = (4 - p mod 4) mod 4"
    unfolding d r_def [symmetric] using p by (elim disjE) simp_all
  then show ?thesis by (simp add: AlignUp_def)
qed

lemma map_memcpy_written:
  assumes "n \<le> length src"
  shows "map (memcpy m dst src n) [dst..<dst + n] = take n src"
proof (rule nth_equalityI)
  show "length (map (memcpy m dst src n) [dst..<dst + n]) = length (take n src)"
    using assms by simp
next
  fix i assume "i < length (map (memcpy m dst src n) [dst..<dst + n])"
  then have i: "i < n" by simp
  then show "map (memcpy m dst src n) [dst..<dst + n] ! i = take n src ! i"
    by (simp add: memcpy_def)
qed

lemma map_memcpy_below:
  "hi \<le> dst \<Longrightarrow> map (memcpy m dst src n) [lo..<hi] = map m [lo..<hi]"
  by (simp add: memcpy_def)

lemma remaining_as_offset:
  "cursor_in_region b \<Longrightarrow> GetRemainingBytes b = capacity b - GetCursorOffset b"
  by (auto simp: cursor_in_region_def GetRemainingBytes_def GetCursorOffset_def)

lemma EmitData_ok:
  assumes "HasSpaceFor b sz"
  shows "EmitData vixl_debug b data sz =
           Inr (b\<lparr>dirty := True, mem := memcpy (mem b) (cursor b) data sz,
                  cursor := cursor b + sz\<rparr>)"
  using assms by (simp add: EmitData_def VIXL_ASSERT_def Let_def)

lemma EmitData_fail:
  assumes "\<not> HasSpaceFor b sz"
  shows "EmitData True b data sz = Inl (Assert_Failed, b)"
  using assms by (simp add: EmitData_def VIXL_ASSERT_def)

lemma EmitZeroedBytes_ok:
  assumes "0 \<le> sint n" and "HasSpaceFor b (nat (sint n))"
  shows "EmitZeroedBytes vixl_debug b n =
           Inr (b\<lparr>dirty := True, mem := memset (mem b) (cursor b) 0 (nat (sint n)),
                  cursor := cursor b + nat (sint n)\<rparr>)"
  using assms
  by (simp add: EmitZeroedBytes_def EnsureSpaceFor_def VIXL_ASSERT_def Let_def
      size_t_of_int_nonneg ptr_add_int_nonneg)

lemma Align_ok:
  assumes "HasSpaceFor b (AlignUp (cursor b) 4 - cursor b)"
  shows "Align vixl_debug b =
           Inr (b\<lparr>dirty := True,
                  mem := memset (mem b) (cursor b) 0 (AlignUp (cursor b) 4 - cursor b),
                  cursor := AlignUp (cursor b) 4\<rparr>)"
proof -
  have pad: "AlignUp (cursor b) 4 - cursor b \<le> 4"
    using AlignUp_4_pad [of "cursor b"] by simp
  have ge: "cursor b \<le> AlignUp (cursor b) 4" by (rule AlignUp_4_ge)
  show ?thesis
    using assms pad ge
    by (simp add: Align_def EmitZeroedBytes_def EnsureSpaceFor_def VIXL_ASSERT_def Let_def
        size_t_of_int_small ptr_add_int_small)
qed

lemma memset_nothing: "memset m dst c 0 = m"
  by (auto simp: memset_def fun_eq_iff)

lemma memcpy_nothing: "memcpy m dst src 0 = m"
  by (auto simp: memcpy_def fun_eq_iff)


lemma EmitData_calls_general:
  assumes "cursor_in_region b"
    and "sum_list (map snd calls) \<le> GetRemainingBytes b"
    and "\<forall>(data, sz) \<in> set calls. sz \<le> length data"
  shows "\<exists>b'. EmitData_calls vixl_debug b calls = Inr b'
            \<and> buffer b' = buffer b \<and> capacity b' = capacity b
            \<and> cursor b' = cursor b + sum_list (map snd calls)
            \<and> read_region b' (cursor b) (cursor b') =
                concat (map (\<lambda>(data, sz). take sz data) calls)
            \<and> read_region b' (buffer b) (cursor b) = read_region b (buffer b) (cursor b)"
  using assms
proof (induction calls arbitrary: b)
  case Nil
  then show ?case by (simp add: read_region_def)
next
  case (Cons c calls)
  obtain data sz where c: "c = (data, sz)" by (cases c)
  let ?b1 = "b\<lparr>dirty := True, mem := memcpy (mem b) (cursor b) data sz,
                cursor := cursor b + sz\<rparr>"
  from Cons.prems c have space: "HasSpaceFor b sz" and len: "sz \<le> length data"
    by (simp_all add: HasSpaceFor_def)
  have step: "EmitData vixl_debug b data sz = Inr ?b1" by (rule EmitData_ok [OF space])
  have inv1: "cursor_in_region ?b1"
    using Cons.prems(1) space
    by (auto simp: cursor_in_region_def HasSpaceFor_def GetRemainingBytes_def)
  have rem1: "sum_list (map snd calls) \<le> GetRemainingBytes ?b1"
    using Cons.prems(1,2) c by (auto simp: GetRemainingBytes_def cursor_in_region_def)
  have rd1: "\<forall>(data, sz) \<in> set calls. sz \<le> length data" using Cons.prems(3) by simp
  from Cons.IH [OF inv1 rem1 rd1] obtain b' where
    r: "EmitData_calls vixl_debug ?b1 calls = Inr b'"
    and bb: "buffer b' = buffer b" and cc: "capacity b' = capacity b"
    and cur: "cursor b' = cursor b + sz + sum_list (map snd calls)"
    and new: "read_region b' (cursor b + sz) (cursor b') =
                concat (map (\<lambda>(data, sz). take sz data) calls)"
    and old: "read_region b' (buffer b) (cursor b + sz) =
                read_region ?b1 (buffer b) (cursor b + sz)"
    by auto
  have le: "buffer b \<le> cursor b" using Cons.prems(1) by (simp add: cursor_in_region_def)
  have split_old: "[buffer b..<cursor b + sz] = [buffer b..<cursor b] @ [cursor b..<cursor b + sz]"
    using le by (intro upt_split) simp_all
  from old have old': "map (mem b') [buffer b..<cursor b] =
                         map (memcpy (mem b) (cursor b) data sz) [buffer b..<cursor b]"
    and mid: "map (mem b') [cursor b..<cursor b + sz] =
                map (memcpy (mem b) (cursor b) data sz) [cursor b..<cursor b + sz]"
    unfolding read_region_def split_old by simp_all
  have split_new: "[cursor b..<cursor b'] = [cursor b..<cursor b + sz] @ [cursor b + sz..<cursor b']"
    unfolding cur by (intro upt_split) simp_all
  have "read_region b' (cursor b) (cursor b') =
          take sz data @ concat (map (\<lambda>(data, sz). take sz data) calls)"
    unfolding read_region_def split_new using mid new len
    by (simp add: read_region_def map_memcpy_written)
  moreover have "read_region b' (buffer b) (cursor b) = read_region b (buffer b) (cursor b)"
    unfolding read_region_def old' by (simp add: map_memcpy_below)
  ultimately show ?case using r step bb cc cur c by simp
qed

lemma memcpy_outside: "a < dst \<or> dst + n \<le> a \<Longrightarrow> memcpy m dst src n a = m a"
  by (auto simp: memcpy_def)

lemma memset_outside: "a < dst \<or> dst + n \<le> a \<Longrightarrow> memset m dst c n a = m a"
  by (auto simp: memset_def)

lemma map_memset_written: "map (memset m dst c n) [dst..<dst + n] = replicate n c"
  by (rule nth_equalityI) (simp_all add: memset_def)

lemma ptr_add_same: "p + n < 2 ^ 64 \<Longrightarrow> ptr_add p n = p + n"
  by (simp add: ptr_add_def)

lemma ptr_add_le: "ptr_add p n \<le> p + n"
  by (simp add: ptr_add_def)

lemma UpdateData_returns:
  assumes "buffer b + offset + sz \<le> cursor b"
  shows "UpdateData vixl_debug b offset data sz =
           Inr (b\<lparr>dirty := True,
                  mem := memcpy (mem b) (ptr_add (buffer b) offset) data sz\<rparr>)"
proof -
  have "ptr_add (ptr_add (buffer b) offset) sz \<le> ptr_add (buffer b) offset + sz"
    by (rule ptr_add_le)
  also have "\<dots> \<le> buffer b + offset + sz"
    using ptr_add_le [of "buffer b" offset] by simp
  finally have "ptr_add (ptr_add (buffer b) offset) sz \<le> cursor b"
    using assms by simp
  then show ?thesis by (simp add: UpdateData_def VIXL_ASSERT_def Let_def)
qed

lemma UpdateData_ok:
  assumes "buffer b + offset + sz \<le> cursor b" and "cursor b < 2 ^ 64"
  shows "UpdateData vixl_debug b offset data sz =
           Inr (b\<lparr>dirty := True, mem := memcpy (mem b) (buffer b + offset) data sz\<rparr>)"
proof -
  have "buffer b + offset < 2 ^ 64" using assms by simp
  then have "ptr_add (buffer b) offset = buffer b + offset" by (rule ptr_add_same)
  with UpdateData_returns [OF assms(1)] show ?thesis by simp
qed

lemma UpdateData_fail:
  assumes "\<not> buffer b + offset + sz \<le> cursor b" and "buffer b + offset + sz < 2 ^ 64"
  shows "UpdateData True b offset data sz = Inl (Assert_Failed, b\<lparr>dirty := True\<rparr>)"
proof -
  have "buffer b + offset < 2 ^ 64" using assms(2) by simp
  then have dst: "ptr_add (buffer b) offset = buffer b + offset" by (rule ptr_add_same)
  have "ptr_add (buffer b + offset) sz = buffer b + offset + sz"
    using assms(2) by (rule ptr_add_same)
  then show ?thesis
    using assms(1) dst by (simp add: UpdateData_def VIXL_ASSERT_def Let_def)
qed

lemma HasSpaceFor_offset:
  "cursor_in_region b \<Longrightarrow> HasSpaceFor b k = (k \<le> capacity b - GetCursorOffset b)"
  by (simp add: HasSpaceFor_def remaining_as_offset)

section \<open>Appending: \<^verbatim>\<open>EmitData\<close>\<close>

text \<open>
  Claim C1. In every build, on a buffer whose cursor is at the base of the region,
  every sequence of \<^verbatim>\<open>EmitData\<close> calls whose sizes add up to at most the capacity runs to its end; the
  final cursor offset is the sum of the sizes, and the bytes from the base up to the
  cursor are the emitted byte sequences one after the other, in the order of the
  calls. Each call reads \<open>sz\<close> bytes of its source, which has that many.
\<close>

theorem EmitData_round_trip:
  assumes "cursor b = buffer b"
    and "sum_list (map snd calls) \<le> capacity b"
    and "\<forall>(data, sz) \<in> set calls. sz \<le> length data"
  shows "\<exists>b'. EmitData_calls vixl_debug b calls = Inr b'
            \<and> GetCursorOffset b' = sum_list (map snd calls)
            \<and> read_region b' (buffer b') (cursor b') =
                concat (map (\<lambda>(data, sz). take sz data) calls)"
proof -
  have inv: "cursor_in_region b" using assms(1) by (simp add: cursor_in_region_def)
  have rem: "sum_list (map snd calls) \<le> GetRemainingBytes b"
    using assms(1,2) by (simp add: GetRemainingBytes_def)
  from EmitData_calls_general [OF inv rem assms(3)] obtain b' where
    "EmitData_calls vixl_debug b calls = Inr b'" "buffer b' = buffer b"
    "cursor b' = cursor b + sum_list (map snd calls)"
    "read_region b' (cursor b) (cursor b') = concat (map (\<lambda>(data, sz). take sz data) calls)"
    by blast
  then show ?thesis using assms(1) by (simp add: GetCursorOffset_def)
qed

text \<open>
  Two calls on the owned buffer of 16 bytes, of 3 and of 4 bytes (the second source
  has a fifth byte that is not emitted).
\<close>

theorem EmitData_round_trip_witness:
  "\<exists>b'. EmitData_calls True owned_16 [([1, 2, 3], 3), ([4, 5, 6, 7, 8], 4)] = Inr b'
        \<and> GetCursorOffset b' = 7
        \<and> read_region b' (buffer b') (cursor b') = [1, 2, 3, 4, 5, 6, 7]"
  using EmitData_round_trip [of owned_16 "[([1, 2, 3], 3), ([4, 5, 6, 7, 8], 4)]" True]
  by (simp add: owned_16_def)

text \<open>
  Claim C3, as amended. In a debug build, a call of \<^verbatim>\<open>EmitData\<close> whose size exceeds
  the remaining capacity (the capacity minus the cursor offset) fails the assertion,
  which ends the process; no error is returned and the buffer is as it was. In every
  build, when at least \<open>sz\<close> bytes remain the call returns: the cursor has advanced
  by \<open>sz\<close>, the flag is set and the \<open>sz\<close> bytes of the source are in the region from
  the old cursor on.
\<close>

theorem EmitData_capacity_check:
  assumes "cursor_in_region b"
  shows "(vixl_debug \<and> capacity b - GetCursorOffset b < sz \<longrightarrow>
            EmitData vixl_debug b data sz = Inl (Assert_Failed, b)
            \<and> terminates_process Assert_Failed)
       \<and> (sz \<le> capacity b - GetCursorOffset b \<longrightarrow>
            (\<exists>b'. EmitData vixl_debug b data sz = Inr b'
               \<and> cursor b' = cursor b + sz \<and> dirty b'
               \<and> (sz \<le> length data \<longrightarrow>
                    read_region b' (cursor b) (cursor b') = take sz data)))"
proof (intro conjI impI)
  assume "vixl_debug \<and> capacity b - GetCursorOffset b < sz"
  then have dbg: "vixl_debug = True" and "\<not> HasSpaceFor b sz"
    using assms by (simp_all add: HasSpaceFor_def remaining_as_offset)
  then show "EmitData vixl_debug b data sz = Inl (Assert_Failed, b)"
    by (simp add: EmitData_fail)
next
  show "terminates_process Assert_Failed" by simp
next
  assume "sz \<le> capacity b - GetCursorOffset b"
  then have "HasSpaceFor b sz"
    using assms by (simp add: HasSpaceFor_def remaining_as_offset)
  then show "\<exists>b'. EmitData vixl_debug b data sz = Inr b'
               \<and> cursor b' = cursor b + sz \<and> dirty b'
               \<and> (sz \<le> length data \<longrightarrow>
                    read_region b' (cursor b) (cursor b') = take sz data)"
    by (simp add: EmitData_ok read_region_def map_memcpy_written)
qed

text \<open>
  On the owned buffer of 16 bytes, in a debug build, a call for 17 bytes fails and a
  call for 3 bytes returns; the call for 3 bytes returns in a release build too.
\<close>

theorem EmitData_capacity_check_witness:
  "cursor_in_region owned_16
   \<and> EmitData True owned_16 (replicate 17 1) 17 = Inl (Assert_Failed, owned_16)
   \<and> (\<exists>b'. EmitData True owned_16 [1, 2, 3] 3 = Inr b' \<and> cursor b' = 4099 \<and> dirty b'
          \<and> read_region b' 4096 4099 = [1, 2, 3])
   \<and> (\<exists>b'. EmitData False owned_16 [1, 2, 3] 3 = Inr b' \<and> cursor b' = 4099 \<and> dirty b'
          \<and> read_region b' 4096 4099 = [1, 2, 3])"
proof -
  have inv: "cursor_in_region owned_16"
    by (simp add: cursor_in_region_def owned_16_def)
  show ?thesis
    using inv EmitData_capacity_check [OF inv, of True 17 "replicate 17 1"]
      EmitData_capacity_check [OF inv, of True 3 "[1, 2, 3]"]
      EmitData_capacity_check [OF inv, of False 3 "[1, 2, 3]"]
    by (auto simp: owned_16_def GetCursorOffset_def)
qed

text \<open>
  Without the amendment the call for 17 bytes on the buffer of 16 bytes would fail in
  every build. In a release build it returns: the cursor is at offset 17, beyond the
  capacity, and the byte at address 4112, the first one after the region, is
  overwritten.
\<close>

theorem EmitData_unchecked_in_release_build:
  "capacity owned_16 - GetCursorOffset owned_16 < 17
   \<and> EmitData False owned_16 (replicate 17 1) 17 =
       Inr (owned_16\<lparr>dirty := True, mem := memcpy zeroed 4096 (replicate 17 1) 17,
                     cursor := 4113\<rparr>)
   \<and> memcpy zeroed 4096 (replicate 17 1) 17 4112 = 1
   \<and> zeroed 4112 = 0"
proof -
  have run: "EmitData False owned_16 (replicate 17 1) 17 =
       Inr (owned_16\<lparr>dirty := True, mem := memcpy zeroed 4096 (replicate 17 1) 17,
                     cursor := 4113\<rparr>)"
    by (simp add: EmitData_def VIXL_ASSERT_def Let_def owned_16_def)
  have byte: "memcpy zeroed 4096 (replicate 17 1) 17 4112 = 1"
    by (simp add: memcpy_def)
  show ?thesis
    using run byte by (simp add: owned_16_def GetCursorOffset_def zeroed_def)
qed

section \<open>Construction\<close>

text \<open>
  Claim C2. For a capacity above 0, a buffer that the constructor returns has its
  cursor at the base address of the region (offset 0) and a false dirty flag; the
  base is the address the allocator returned, and the constructor does return a
  buffer whenever that address is not null and word aligned. With a capacity of 0 the
  constructor returns an empty buffer: no region (a null base), a null cursor, not
  dirty, whatever the allocator would answer.
\<close>

theorem CodeBuffer_create_initial:
  "(0 < cap \<longrightarrow>
      (\<forall>b. CodeBuffer_create vixl_debug alloc env m cap = Inr b \<longrightarrow>
           cursor b = buffer b \<and> GetCursorOffset b = 0 \<and> \<not> dirty b
           \<and> buffer b = env (allocate alloc cap) \<and> buffer b \<noteq> NULL
           \<and> capacity b = cap \<and> managed b \<and> mem b = m)
      \<and> (env (allocate alloc cap) \<noteq> NULL \<and> IsWordAligned (env (allocate alloc cap)) \<longrightarrow>
           (\<exists>b. CodeBuffer_create vixl_debug alloc env m cap = Inr b)))
   \<and> CodeBuffer_create vixl_debug alloc env m 0 =
       Inr \<lparr>buffer = NULL, managed = True, cursor = NULL, dirty = False,
             capacity = 0, mem = m\<rparr>"
  by (auto simp: CodeBuffer_create_def Let_def VIXL_CHECK_def VIXL_ASSERT_def
      GetCursorOffset_def split: if_splits)

text \<open>
  The allocator answers 4096: a capacity of 16 gives the owned buffer of 16 bytes, a
  capacity of 0 the empty buffer.
\<close>

theorem CodeBuffer_create_initial_witness:
  "CodeBuffer_create True VIXL_CODE_BUFFER_MMAP env_4096 zeroed 16 = Inr owned_16
   \<and> cursor owned_16 = buffer owned_16 \<and> \<not> dirty owned_16
   \<and> CodeBuffer_create True VIXL_CODE_BUFFER_MMAP env_4096 zeroed 0 =
       Inr \<lparr>buffer = NULL, managed = True, cursor = NULL, dirty = False,
             capacity = 0, mem = zeroed\<rparr>"
proof -
  have run: "CodeBuffer_create True VIXL_CODE_BUFFER_MMAP env_4096 zeroed 16 = Inr owned_16"
    by (simp add: CodeBuffer_create_def Let_def VIXL_CHECK_def VIXL_ASSERT_def
        IsWordAligned_def env_4096_def owned_16_def)
  show ?thesis
    using run
      CodeBuffer_create_initial [where cap = 16 and vixl_debug = True
        and alloc = VIXL_CODE_BUFFER_MMAP and env = env_4096 and m = zeroed]
      CodeBuffer_create_initial [where cap = 0 and vixl_debug = True
        and alloc = VIXL_CODE_BUFFER_MMAP and env = env_4096 and m = zeroed]
    by simp
qed

section \<open>Patching: \<^verbatim>\<open>UpdateData\<close>\<close>

text \<open>
  Claim C4, as amended. For a buffer whose cursor lies in its region and is a pointer
  of the machine: when \<open>offset + sz\<close> is at most the cursor offset,
  \<^verbatim>\<open>UpdateData(offset, data, sz)\<close> returns in every build; afterwards the \<open>sz\<close> bytes of
  the region from \<open>offset\<close> on are the given data, every other byte of memory is what
  it was, the cursor (and the base, the capacity and the ownership) are unchanged and
  the dirty flag is true. In a debug build, when \<open>offset + sz\<close> lies beyond the cursor
  offset and the end address of the patch, base plus \<open>offset + sz\<close>, is below
  \<open>2 ^ 64\<close>, the call fails the assertion, which ends the process, and no byte is
  patched.
\<close>

theorem UpdateData_patch:
  assumes "cursor_in_region b" and "cursor b < 2 ^ 64" and "sz \<le> length data"
  shows "(offset + sz \<le> GetCursorOffset b \<longrightarrow>
            (\<exists>b'. UpdateData vixl_debug b offset data sz = Inr b'
               \<and> read_region b' (buffer b + offset) (buffer b + offset + sz) = take sz data
               \<and> (\<forall>a. a < buffer b + offset \<or> buffer b + offset + sz \<le> a \<longrightarrow>
                      mem b' a = mem b a)
               \<and> cursor b' = cursor b \<and> buffer b' = buffer b \<and> capacity b' = capacity b
               \<and> managed b' = managed b \<and> dirty b'))
       \<and> (vixl_debug \<and> GetCursorOffset b < offset + sz
              \<and> buffer b + offset + sz < 2 ^ 64 \<longrightarrow>
            UpdateData vixl_debug b offset data sz = Inl (Assert_Failed, b\<lparr>dirty := True\<rparr>)
            \<and> terminates_process Assert_Failed)"
proof (intro conjI impI)
  assume "offset + sz \<le> GetCursorOffset b"
  then have "buffer b + offset + sz \<le> cursor b"
    using assms(1) by (auto simp: GetCursorOffset_def cursor_in_region_def)
  then have "UpdateData vixl_debug b offset data sz =
               Inr (b\<lparr>dirty := True, mem := memcpy (mem b) (buffer b + offset) data sz\<rparr>)"
    using assms(2) by (rule UpdateData_ok)
  then show "\<exists>b'. UpdateData vixl_debug b offset data sz = Inr b'
               \<and> read_region b' (buffer b + offset) (buffer b + offset + sz) = take sz data
               \<and> (\<forall>a. a < buffer b + offset \<or> buffer b + offset + sz \<le> a \<longrightarrow>
                      mem b' a = mem b a)
               \<and> cursor b' = cursor b \<and> buffer b' = buffer b \<and> capacity b' = capacity b
               \<and> managed b' = managed b \<and> dirty b'"
    using assms(3) by (simp add: read_region_def map_memcpy_written memcpy_outside)
next
  assume a: "vixl_debug \<and> GetCursorOffset b < offset + sz
               \<and> buffer b + offset + sz < 2 ^ 64"
  then have dbg: "vixl_debug = True" by simp
  from a have "\<not> buffer b + offset + sz \<le> cursor b"
    using assms(1) by (auto simp: GetCursorOffset_def cursor_in_region_def)
  moreover from a have "buffer b + offset + sz < 2 ^ 64" by simp
  ultimately show "UpdateData vixl_debug b offset data sz =
                     Inl (Assert_Failed, b\<lparr>dirty := True\<rparr>)"
    unfolding dbg by (rule UpdateData_fail)
next
  show "terminates_process Assert_Failed" by simp
qed

text \<open>
  With 8 bytes emitted, patching the first byte with 255 succeeds, in a debug and in
  a release build, and leaves the second byte alone; in a debug build a patch of the
  byte at offset 8 fails.
\<close>

theorem UpdateData_patch_witness:
  "cursor_in_region (owned_16\<lparr>cursor := 4104\<rparr>)
   \<and> cursor (owned_16\<lparr>cursor := 4104\<rparr>) < 2 ^ 64
   \<and> (\<exists>b'. UpdateData True (owned_16\<lparr>cursor := 4104\<rparr>) 0 [255] 1 = Inr b'
          \<and> read_region b' 4096 4097 = [255] \<and> mem b' 4097 = 0
          \<and> cursor b' = 4104 \<and> dirty b')
   \<and> (\<exists>b'. UpdateData False (owned_16\<lparr>cursor := 4104\<rparr>) 0 [255] 1 = Inr b'
          \<and> read_region b' 4096 4097 = [255] \<and> mem b' 4097 = 0
          \<and> cursor b' = 4104 \<and> dirty b')
   \<and> UpdateData True (owned_16\<lparr>cursor := 4104\<rparr>) 8 [255] 1 =
       Inl (Assert_Failed, owned_16\<lparr>cursor := 4104, dirty := True\<rparr>)"
proof -
  have inv: "cursor_in_region (owned_16\<lparr>cursor := 4104\<rparr>)"
    by (simp add: cursor_in_region_def owned_16_def)
  have ptr: "cursor (owned_16\<lparr>cursor := 4104\<rparr>) < 2 ^ 64" by simp
  have len: "1 \<le> length [255 :: byte]" by simp
  show ?thesis
    using inv ptr UpdateData_patch [OF inv ptr len, of 0 True]
      UpdateData_patch [OF inv ptr len, of 0 False]
      UpdateData_patch [OF inv ptr len, of 8 True]
    by (auto simp: owned_16_def GetCursorOffset_def zeroed_def)
qed

text \<open>
  Without the amendment a patch that ends beyond the cursor would be a fatal fault
  for every offset and size and in every build. With 8 bytes emitted, a release build
  patches the unwritten byte at offset 8. A debug build accepts the offset
  \<open>2 ^ 64 - 1\<close> with size 1: the pointer sum wraps around to the address before the
  base, the end of the patch is the base, which is not beyond the cursor, and the
  byte at address 4095 is overwritten.
\<close>

theorem UpdateData_beyond_cursor_accepted:
  "GetCursorOffset (owned_16\<lparr>cursor := 4104\<rparr>) < 8 + 1
   \<and> UpdateData False (owned_16\<lparr>cursor := 4104\<rparr>) 8 [255] 1 =
       Inr (owned_16\<lparr>cursor := 4104, dirty := True, mem := memcpy zeroed 4104 [255] 1\<rparr>)
   \<and> memcpy zeroed 4104 [255] 1 4104 = 255
   \<and> GetCursorOffset (owned_16\<lparr>cursor := 4104\<rparr>) < 18446744073709551615 + 1
   \<and> UpdateData True (owned_16\<lparr>cursor := 4104\<rparr>) 18446744073709551615 [255] 1 =
       Inr (owned_16\<lparr>cursor := 4104, dirty := True, mem := memcpy zeroed 4095 [255] 1\<rparr>)
   \<and> memcpy zeroed 4095 [255] 1 4095 = 255"
proof -
  have release: "UpdateData False (owned_16\<lparr>cursor := 4104\<rparr>) 8 [255] 1 =
       Inr (owned_16\<lparr>cursor := 4104, dirty := True, mem := memcpy zeroed 4104 [255] 1\<rparr>)"
    by (simp add: UpdateData_def VIXL_ASSERT_def Let_def owned_16_def ptr_add_def)
  have wrap: "UpdateData True (owned_16\<lparr>cursor := 4104\<rparr>) 18446744073709551615 [255] 1 =
       Inr (owned_16\<lparr>cursor := 4104, dirty := True, mem := memcpy zeroed 4095 [255] 1\<rparr>)"
    by (simp add: UpdateData_def VIXL_ASSERT_def Let_def owned_16_def ptr_add_def)
  have bytes: "memcpy zeroed 4104 [255] 1 4104 = 255" "memcpy zeroed 4095 [255] 1 4095 = 255"
    by (simp_all add: memcpy_def)
  show ?thesis
    using release wrap bytes by (simp add: owned_16_def GetCursorOffset_def)
qed

section \<open>\<^verbatim>\<open>Reset\<close>\<close>

text \<open>
  Claim C6. \<^verbatim>\<open>Reset\<close>, in any state of the buffer, puts the cursor at the start of
  the region and makes the dirty flag false; base, capacity and ownership stay. In a
  debug build and for owned memory it also fills the whole region with zero bytes
  and touches no byte outside it; outside debug builds, and for borrowed memory, the
  memory is unchanged.
\<close>

theorem Reset_rewinds:
  "cursor (Reset vixl_debug b) = buffer b
   \<and> GetCursorOffset (Reset vixl_debug b) = 0
   \<and> \<not> dirty (Reset vixl_debug b)
   \<and> buffer (Reset vixl_debug b) = buffer b
   \<and> capacity (Reset vixl_debug b) = capacity b
   \<and> managed (Reset vixl_debug b) = managed b
   \<and> (vixl_debug \<and> managed b \<longrightarrow>
        read_region (Reset vixl_debug b) (buffer b) (buffer b + capacity b) =
          replicate (capacity b) 0
        \<and> (\<forall>a. a < buffer b \<or> buffer b + capacity b \<le> a \<longrightarrow>
               mem (Reset vixl_debug b) a = mem b a))
   \<and> (\<not> (vixl_debug \<and> managed b) \<longrightarrow> mem (Reset vixl_debug b) = mem b)"
  by (simp add: Reset_def SetClean_def Let_def GetCursorOffset_def read_region_def
      map_memset_written memset_outside)

text \<open>
  A dirty buffer with 8 bytes emitted: reset in a debug build when owned, in a release
  build when owned, and in a debug build when borrowed.
\<close>

theorem Reset_rewinds_witness:
  "cursor (Reset True (owned_16\<lparr>cursor := 4104, dirty := True\<rparr>)) = 4096
   \<and> \<not> dirty (Reset True (owned_16\<lparr>cursor := 4104, dirty := True\<rparr>))
   \<and> read_region (Reset True (owned_16\<lparr>cursor := 4104, dirty := True\<rparr>)) 4096 4112 =
       replicate 16 0
   \<and> mem (Reset False (owned_16\<lparr>cursor := 4104, dirty := True\<rparr>)) = zeroed
   \<and> mem (Reset True (borrowed_16\<lparr>cursor := 4104, dirty := True\<rparr>)) = zeroed"
  using Reset_rewinds [of True "owned_16\<lparr>cursor := 4104, dirty := True\<rparr>"]
    Reset_rewinds [of False "owned_16\<lparr>cursor := 4104, dirty := True\<rparr>"]
    Reset_rewinds [of True "borrowed_16\<lparr>cursor := 4104, dirty := True\<rparr>"]
  by (simp add: owned_16_def borrowed_16_def)

section \<open>Destruction\<close>

text \<open>
  Claim C7, as amended. In a debug build, destroying a buffer whose dirty flag is true
  fails the assertion, which ends the process. In every other case (the flag is
  false, or the build is not a debug build and makes no check) the destructor makes a
  release call exactly when the buffer owns its memory, and the call is the one that
  gives back what the allocator of the same build acquired (\<^verbatim>\<open>free\<close> of the base under
  the \<^verbatim>\<open>malloc\<close> build, \<^verbatim>\<open>munmap\<close> of the base and the capacity under the \<^verbatim>\<open>mmap\<close>
  build); for borrowed memory it makes none.
\<close>

theorem CodeBuffer_destroy_release:
  "(vixl_debug \<and> dirty b \<longrightarrow>
      CodeBuffer_destroy vixl_debug alloc b = Inl Assert_Failed
      \<and> terminates_process Assert_Failed)
   \<and> (\<not> (vixl_debug \<and> dirty b) \<and> managed b \<longrightarrow>
        (\<exists>r. CodeBuffer_destroy vixl_debug alloc b = Inr (Some r)
            \<and> gives_back r (allocate alloc (capacity b))
            \<and> r = (case alloc of
                     VIXL_CODE_BUFFER_MALLOC \<Rightarrow> Free (buffer b)
                   | VIXL_CODE_BUFFER_MMAP \<Rightarrow> Munmap (buffer b) (capacity b))))
   \<and> (\<not> (vixl_debug \<and> dirty b) \<and> \<not> managed b \<longrightarrow>
        CodeBuffer_destroy vixl_debug alloc b = Inr None)"
  by (cases alloc)
    (auto simp: CodeBuffer_destroy_def VIXL_ASSERT_def IsDirty_def allocate_def)

text \<open>
  The owned buffer, dirty and clean, in a debug build under both allocators, and the
  borrowed one.
\<close>

theorem CodeBuffer_destroy_release_witness:
  "CodeBuffer_destroy True VIXL_CODE_BUFFER_MMAP (owned_16\<lparr>dirty := True\<rparr>) =
     Inl Assert_Failed
   \<and> CodeBuffer_destroy True VIXL_CODE_BUFFER_MMAP owned_16 = Inr (Some (Munmap 4096 16))
   \<and> CodeBuffer_destroy True VIXL_CODE_BUFFER_MALLOC owned_16 = Inr (Some (Free 4096))
   \<and> CodeBuffer_destroy True VIXL_CODE_BUFFER_MMAP borrowed_16 = Inr None"
  using CodeBuffer_destroy_release [of True "owned_16\<lparr>dirty := True\<rparr>" VIXL_CODE_BUFFER_MMAP]
    CodeBuffer_destroy_release [of True owned_16 VIXL_CODE_BUFFER_MMAP]
    CodeBuffer_destroy_release [of True owned_16 VIXL_CODE_BUFFER_MALLOC]
    CodeBuffer_destroy_release [of True borrowed_16 VIXL_CODE_BUFFER_MMAP]
  by (auto simp: owned_16_def borrowed_16_def)

text \<open>
  Without the amendment the destruction of a dirty buffer would fail in every build.
  In a release build the destructor of the dirty owned buffer makes no check and
  releases the region.
\<close>

theorem CodeBuffer_destroy_dirty_in_release_build:
  "dirty (owned_16\<lparr>dirty := True\<rparr>)
   \<and> CodeBuffer_destroy False VIXL_CODE_BUFFER_MMAP (owned_16\<lparr>dirty := True\<rparr>) =
       Inr (Some (Munmap 4096 16))
   \<and> CodeBuffer_destroy False VIXL_CODE_BUFFER_MALLOC (owned_16\<lparr>dirty := True\<rparr>) =
       Inr (Some (Free 4096))"
  by (simp add: CodeBuffer_destroy_def VIXL_ASSERT_def IsDirty_def owned_16_def)

section \<open>\<^verbatim>\<open>Grow\<close>\<close>

text \<open>
  Claim C8, as amended. Every call of \<^verbatim>\<open>Grow\<close>, for any requested capacity, fails
  unconditionally by throwing a \<^verbatim>\<open>std::runtime_error\<close>, which is an exception of the
  language and not a process-terminating assertion, and it changes neither the
  capacity nor any other part of the buffer.
\<close>

theorem Grow_throws:
  "Grow b new_capacity = Inl (Runtime_Error ''[Vixl] Grow function was called somehow'', b)
   \<and> \<not> terminates_process (Runtime_Error ''[Vixl] Grow function was called somehow'')"
  by (simp add: Grow_def)

text \<open>
  Without the amendment the failure would be a process-terminating fault and not a
  recoverable exception. On the owned buffer of 16 bytes a request for 32 bytes is
  answered by the thrown exception, not by a failed assertion or check.
\<close>

theorem Grow_not_an_assertion:
  "Grow owned_16 32 \<noteq> Inl (Assert_Failed, owned_16)
   \<and> Grow owned_16 32 \<noteq> Inl (Check_Failed, owned_16)
   \<and> Grow owned_16 32 = Inl (Runtime_Error ''[Vixl] Grow function was called somehow'', owned_16)
   \<and> \<not> terminates_process (Runtime_Error ''[Vixl] Grow function was called somehow'')"
  by (simp add: Grow_def)

section \<open>Emitting nothing\<close>

text \<open>
  Claim C10, as amended. Emitting zero bytes still marks the buffer dirty: for every
  buffer and in every build, \<^verbatim>\<open>EmitData\<close> with size 0 and \<^verbatim>\<open>EmitZeroedBytes\<close> with
  \<open>n = 0\<close>, and \<^verbatim>\<open>Align\<close> when the cursor is already 4-aligned, return the buffer with
  the dirty flag true and with cursor and memory unchanged; in a debug build,
  destroying that buffer without a \<^verbatim>\<open>Reset\<close> fails the dirty assertion.
\<close>

theorem empty_emit_sets_dirty:
  "EmitData vixl_debug b data 0 = Inr (b\<lparr>dirty := True\<rparr>)
   \<and> EmitZeroedBytes vixl_debug b 0 = Inr (b\<lparr>dirty := True\<rparr>)
   \<and> (IsWordAligned (cursor b) \<longrightarrow> Align vixl_debug b = Inr (b\<lparr>dirty := True\<rparr>))
   \<and> CodeBuffer_destroy True alloc (b\<lparr>dirty := True\<rparr>) = Inl Assert_Failed
   \<and> terminates_process Assert_Failed"
proof (intro conjI impI)
  have space: "HasSpaceFor b 0" by (simp add: HasSpaceFor_def)
  show "EmitData vixl_debug b data 0 = Inr (b\<lparr>dirty := True\<rparr>)"
    by (simp add: EmitData_ok [OF space] memcpy_nothing)
  show "EmitZeroedBytes vixl_debug b 0 = Inr (b\<lparr>dirty := True\<rparr>)"
    using EmitZeroedBytes_ok [of 0 b vixl_debug] space by (simp add: memset_nothing)
  show "CodeBuffer_destroy True alloc (b\<lparr>dirty := True\<rparr>) = Inl Assert_Failed"
    by (simp add: CodeBuffer_destroy_def VIXL_ASSERT_def IsDirty_def)
  show "terminates_process Assert_Failed" by simp
next
  assume "IsWordAligned (cursor b)"
  then have fixed: "AlignUp (cursor b) 4 = cursor b"
    by (simp add: IsWordAligned_def AlignUp_4_fixed)
  have "HasSpaceFor b (AlignUp (cursor b) 4 - cursor b)"
    by (simp add: fixed HasSpaceFor_def)
  from Align_ok [OF this] show "Align vixl_debug b = Inr (b\<lparr>dirty := True\<rparr>)"
    by (simp add: fixed memset_nothing)
qed

text \<open>
  The clean owned buffer of 16 bytes, whose cursor 4096 is aligned: the emits in a
  release build, the destruction in a debug build.
\<close>

theorem empty_emit_sets_dirty_witness:
  "IsWordAligned (cursor owned_16)
   \<and> \<not> dirty owned_16
   \<and> EmitData False owned_16 [] 0 = Inr (owned_16\<lparr>dirty := True\<rparr>)
   \<and> EmitZeroedBytes False owned_16 0 = Inr (owned_16\<lparr>dirty := True\<rparr>)
   \<and> Align False owned_16 = Inr (owned_16\<lparr>dirty := True\<rparr>)
   \<and> CodeBuffer_destroy True VIXL_CODE_BUFFER_MALLOC (owned_16\<lparr>dirty := True\<rparr>) =
       Inl Assert_Failed"
proof -
  have al: "IsWordAligned (cursor owned_16)"
    by (simp add: IsWordAligned_def owned_16_def)
  show ?thesis
    using al empty_emit_sets_dirty [of False owned_16 "[]" VIXL_CODE_BUFFER_MALLOC]
    by (simp add: owned_16_def)
qed

text \<open>
  Without the amendment the destruction that follows an empty emit would fail in
  every build. In a release build \<^verbatim>\<open>EmitData\<close> with size 0 makes the owned buffer
  dirty and the destructor then releases it without a failure.
\<close>

theorem empty_emit_then_destroy_in_release_build:
  "\<not> dirty owned_16
   \<and> EmitData False owned_16 [] 0 = Inr (owned_16\<lparr>dirty := True\<rparr>)
   \<and> CodeBuffer_destroy False VIXL_CODE_BUFFER_MALLOC (owned_16\<lparr>dirty := True\<rparr>) =
       Inr (Some (Free 4096))"
proof -
  have "EmitData False owned_16 [] 0 = Inr (owned_16\<lparr>dirty := True\<rparr>)"
    by (simp add: EmitData_def VIXL_ASSERT_def Let_def memcpy_nothing)
  then show ?thesis
    by (simp add: CodeBuffer_destroy_def VIXL_ASSERT_def IsDirty_def owned_16_def)
qed

section \<open>\<^verbatim>\<open>Align\<close>\<close>

text \<open>
  Claim C5, as amended. \<^verbatim>\<open>Align\<close>, called at any cursor position with room for the
  padding, emits the smallest number of zero bytes, between 0 and 3, that brings the
  cursor to the next address that is a multiple of 4; this is the next multiple of 4
  from the base of the region whenever the base is word aligned. It writes zero bytes
  only, between the old and the new cursor, and leaves every other byte, the base,
  the capacity and the ownership as they were. A second \<^verbatim>\<open>Align\<close> right after it
  returns the very same state: cursor, dirty flag and memory are unchanged.
\<close>

theorem Align_pads_to_word:
  assumes "HasSpaceFor b ((4 - cursor b mod 4) mod 4)"
  shows "\<exists>b'. Align vixl_debug b = Inr b'
           \<and> cursor b \<le> cursor b' \<and> cursor b' - cursor b \<le> 3
           \<and> cursor b' mod 4 = 0
           \<and> (\<forall>q. cursor b \<le> q \<and> q mod 4 = 0 \<longrightarrow> cursor b' \<le> q)
           \<and> read_region b' (cursor b) (cursor b') = replicate (cursor b' - cursor b) 0
           \<and> (\<forall>a. a < cursor b \<or> cursor b' \<le> a \<longrightarrow> mem b' a = mem b a)
           \<and> buffer b' = buffer b \<and> capacity b' = capacity b
           \<and> managed b' = managed b \<and> dirty b'
           \<and> (IsWordAligned (buffer b) \<and> buffer b \<le> cursor b \<longrightarrow>
                GetCursorOffset b' mod 4 = 0
                \<and> (\<forall>k. GetCursorOffset b \<le> k \<and> k mod 4 = 0 \<longrightarrow> GetCursorOffset b' \<le> k))
           \<and> Align vixl_debug b' = Inr b'"
proof -
  let ?e = "AlignUp (cursor b) 4"
  let ?b' = "b\<lparr>dirty := True, mem := memset (mem b) (cursor b) 0 (?e - cursor b),
               cursor := ?e\<rparr>"
  have space: "HasSpaceFor b (?e - cursor b)"
    using assms by (simp add: AlignUp_4_padding)
  have run: "Align vixl_debug b = Inr ?b'" by (rule Align_ok [OF space])
  have ge: "cursor b \<le> ?e" by (rule AlignUp_4_ge)
  have pad: "?e - cursor b \<le> 3" by (rule AlignUp_4_pad)
  have al: "?e mod 4 = 0" by (rule AlignUp_4_aligned)
  have least: "\<forall>q. cursor b \<le> q \<and> q mod 4 = 0 \<longrightarrow> ?e \<le> q"
    by (simp add: AlignUp_4_least)
  have e_eq: "?e = cursor b + (?e - cursor b)" using ge by simp
  have zeros: "read_region ?b' (cursor b) ?e = replicate (?e - cursor b) 0"
  proof -
    have "map (memset (mem b) (cursor b) 0 (?e - cursor b))
            [cursor b..<cursor b + (?e - cursor b)] = replicate (?e - cursor b) 0"
      by (rule map_memset_written)
    then show ?thesis using ge by (simp add: read_region_def)
  qed
  have frame: "\<forall>a. a < cursor b \<or> ?e \<le> a \<longrightarrow> mem ?b' a = mem b a"
    using ge by (simp add: memset_outside)
  have offs: "IsWordAligned (buffer b) \<and> buffer b \<le> cursor b \<longrightarrow>
                GetCursorOffset ?b' mod 4 = 0
                \<and> (\<forall>k. GetCursorOffset b \<le> k \<and> k mod 4 = 0 \<longrightarrow> GetCursorOffset ?b' \<le> k)"
  proof (intro impI, elim conjE)
    assume base: "IsWordAligned (buffer b)" and le: "buffer b \<le> cursor b"
    have off: "GetCursorOffset ?b' = AlignUp (GetCursorOffset b) 4"
      using base le by (simp add: GetCursorOffset_def IsWordAligned_def AlignUp_4_offset)
    show "GetCursorOffset ?b' mod 4 = 0
            \<and> (\<forall>k. GetCursorOffset b \<le> k \<and> k mod 4 = 0 \<longrightarrow> GetCursorOffset ?b' \<le> k)"
      unfolding off by (simp add: AlignUp_4_aligned AlignUp_4_least)
  qed
  have again: "Align vixl_debug ?b' = Inr ?b'"
  proof -
    have fixed: "AlignUp (cursor ?b') 4 = cursor ?b'"
      using al by (simp add: AlignUp_4_fixed)
    have "HasSpaceFor ?b' (AlignUp (cursor ?b') 4 - cursor ?b')"
      unfolding fixed by (simp add: HasSpaceFor_def)
    from Align_ok [OF this] show ?thesis
      unfolding fixed by (simp add: memset_nothing)
  qed
  show ?thesis
    using run ge pad al least zeros frame offs again by simp
qed

text \<open>
  The owned buffer of 16 bytes after 3 emitted bytes: the base 4096 is aligned, the
  cursor moves from offset 3 to offset 4 and the byte in between is zero.
\<close>

theorem Align_pads_to_word_witness:
  "HasSpaceFor (owned_16\<lparr>cursor := 4099\<rparr>) ((4 - 4099 mod 4) mod 4)
   \<and> IsWordAligned (buffer (owned_16\<lparr>cursor := 4099\<rparr>))
   \<and> GetCursorOffset (owned_16\<lparr>cursor := 4099\<rparr>) = 3
   \<and> (\<exists>b'. Align True (owned_16\<lparr>cursor := 4099\<rparr>) = Inr b'
          \<and> cursor b' - 4099 \<le> 3 \<and> cursor b' mod 4 = 0
          \<and> GetCursorOffset b' mod 4 = 0
          \<and> read_region b' 4099 (cursor b') = replicate (cursor b' - 4099) 0
          \<and> Align True b' = Inr b')"
proof -
  let ?b = "owned_16\<lparr>cursor := 4099\<rparr>"
  have c: "cursor ?b = 4099" by simp
  have space: "HasSpaceFor ?b ((4 - cursor ?b mod 4) mod 4)"
    by (simp add: HasSpaceFor_def GetRemainingBytes_def owned_16_def)
  have base: "IsWordAligned (buffer ?b) \<and> buffer ?b \<le> cursor ?b"
    by (simp add: IsWordAligned_def owned_16_def)
  have off: "GetCursorOffset ?b = 3"
    by (simp add: GetCursorOffset_def owned_16_def)
  from Align_pads_to_word [OF space, where vixl_debug = True] obtain b' where
    all: "Align True ?b = Inr b'
           \<and> cursor ?b \<le> cursor b' \<and> cursor b' - cursor ?b \<le> 3
           \<and> cursor b' mod 4 = 0
           \<and> (\<forall>q. cursor ?b \<le> q \<and> q mod 4 = 0 \<longrightarrow> cursor b' \<le> q)
           \<and> read_region b' (cursor ?b) (cursor b') = replicate (cursor b' - cursor ?b) 0
           \<and> (\<forall>a. a < cursor ?b \<or> cursor b' \<le> a \<longrightarrow> mem b' a = mem ?b a)
           \<and> buffer b' = buffer ?b \<and> capacity b' = capacity ?b
           \<and> managed b' = managed ?b \<and> dirty b'
           \<and> (IsWordAligned (buffer ?b) \<and> buffer ?b \<le> cursor ?b \<longrightarrow>
                GetCursorOffset b' mod 4 = 0
                \<and> (\<forall>k. GetCursorOffset ?b \<le> k \<and> k mod 4 = 0 \<longrightarrow> GetCursorOffset b' \<le> k))
           \<and> Align True b' = Inr b'" ..
  from all have r: "Align True ?b = Inr b'" by (rule conjunct1)
  from all have p: "cursor b' - cursor ?b \<le> 3" by (elim conjE)
  from all have a: "cursor b' mod 4 = 0" by (elim conjE)
  from all have z: "read_region b' (cursor ?b) (cursor b') = replicate (cursor b' - cursor ?b) 0"
    by (elim conjE)
  from all have i: "IsWordAligned (buffer ?b) \<and> buffer ?b \<le> cursor ?b \<longrightarrow>
                GetCursorOffset b' mod 4 = 0
                \<and> (\<forall>k. GetCursorOffset ?b \<le> k \<and> k mod 4 = 0 \<longrightarrow> GetCursorOffset b' \<le> k)"
    by (elim conjE)
  from all have g: "Align True b' = Inr b'" by (elim conjE)
  from mp [OF i base] have o: "GetCursorOffset b' mod 4 = 0" by (rule conjunct1)
  have "Align True ?b = Inr b'
          \<and> cursor b' - 4099 \<le> 3 \<and> cursor b' mod 4 = 0
          \<and> GetCursorOffset b' mod 4 = 0
          \<and> read_region b' 4099 (cursor b') = replicate (cursor b' - 4099) 0
          \<and> Align True b' = Inr b'"
    using r p a o z g unfolding c by (intro conjI)
  then have ex: "\<exists>b'. Align True ?b = Inr b'
          \<and> cursor b' - 4099 \<le> 3 \<and> cursor b' mod 4 = 0
          \<and> GetCursorOffset b' mod 4 = 0
          \<and> read_region b' 4099 (cursor b') = replicate (cursor b' - 4099) 0
          \<and> Align True b' = Inr b'" ..
  from space have space': "HasSpaceFor ?b ((4 - 4099 mod 4) mod 4)" unfolding c .
  from base have base': "IsWordAligned (buffer ?b)" ..
  show ?thesis using space' base' off ex by (intro conjI)
qed

text \<open>
  Without the amendment the cursor would move to the next multiple of 4 counted from
  the base of the region. A borrowed region may start at any address; for the one at
  4097 the cursor offset 0 is such a multiple already, and \<^verbatim>\<open>Align\<close> emits 3 bytes
  and leaves the cursor at offset 3.
\<close>

theorem Align_on_odd_base:
  "CodeBuffer_wrap True 4097 zeroed 16 = Inr borrowed_16
   \<and> GetCursorOffset borrowed_16 = 0
   \<and> HasSpaceFor borrowed_16 3
   \<and> Align True borrowed_16 =
       Inr (borrowed_16\<lparr>dirty := True, mem := memset zeroed 4097 0 3, cursor := 4100\<rparr>)
   \<and> GetCursorOffset
        (borrowed_16\<lparr>dirty := True, mem := memset zeroed 4097 0 3, cursor := 4100\<rparr>) = 3
   \<and> GetCursorOffset
        (borrowed_16\<lparr>dirty := True, mem := memset zeroed 4097 0 3, cursor := 4100\<rparr>) mod 4
       \<noteq> 0"
proof -
  have e: "AlignUp (cursor borrowed_16) 4 = 4100"
    by (simp add: AlignUp_def borrowed_16_def)
  have space: "HasSpaceFor borrowed_16 (AlignUp (cursor borrowed_16) 4 - cursor borrowed_16)"
    unfolding e by (simp add: HasSpaceFor_def GetRemainingBytes_def borrowed_16_def)
  have "Align True borrowed_16 =
          Inr (borrowed_16\<lparr>dirty := True, mem := memset zeroed 4097 0 3, cursor := 4100\<rparr>)"
    using Align_ok [OF space, of True] unfolding e by (simp add: borrowed_16_def)
  then show ?thesis
    by (simp add: CodeBuffer_wrap_def VIXL_ASSERT_def GetCursorOffset_def HasSpaceFor_def
        GetRemainingBytes_def borrowed_16_def)
qed

section \<open>The invariant of the cursor\<close>

text \<open>
  Claim C9. For every buffer whose cursor lies in its region and every operation
  among \<^verbatim>\<open>EmitData\<close>, \<^verbatim>\<open>EmitZeroedBytes\<close>, \<^verbatim>\<open>Align\<close>, \<^verbatim>\<open>UpdateData\<close> and \<^verbatim>\<open>Reset\<close>
  whose precondition holds, the operation returns, the cursor still lies in the
  region (its offset is between 0 and the capacity), the capacity and the base are
  what they were, and the cursor has not moved back unless the operation is
  \<^verbatim>\<open>Reset\<close>.
\<close>

theorem operations_keep_invariant:
  assumes "cursor_in_region b" and "precondition b op"
  shows "\<exists>b'. perform vixl_debug b op = Inr b'
           \<and> cursor_in_region b' \<and> GetCursorOffset b' \<le> capacity b'
           \<and> capacity b' = capacity b \<and> buffer b' = buffer b
           \<and> (op \<noteq> Op_Reset \<longrightarrow> cursor b \<le> cursor b')"
proof -
  have bounds: "buffer b \<le> cursor b" "cursor b \<le> buffer b + capacity b"
    using assms(1) by (simp_all add: cursor_in_region_def)
  show ?thesis
  proof (cases op)
    case (Op_EmitData data sz)
    with assms have space: "HasSpaceFor b sz" by (simp add: HasSpaceFor_offset)
    then have "cursor b + sz \<le> buffer b + capacity b"
      using bounds by (simp add: HasSpaceFor_def GetRemainingBytes_def)
    then show ?thesis
      using Op_EmitData bounds
      by (simp add: EmitData_ok [OF space] cursor_in_region_def GetCursorOffset_def)
  next
    case (Op_EmitZeroedBytes n)
    with assms have nn: "0 \<le> sint n" and space: "HasSpaceFor b (nat (sint n))"
      by (simp_all add: HasSpaceFor_offset)
    from space have "cursor b + nat (sint n) \<le> buffer b + capacity b"
      using bounds by (simp add: HasSpaceFor_def GetRemainingBytes_def)
    then show ?thesis
      using Op_EmitZeroedBytes bounds
      by (simp add: EmitZeroedBytes_ok [OF nn space] cursor_in_region_def GetCursorOffset_def)
  next
    case Op_Align
    with assms have space: "HasSpaceFor b (AlignUp (cursor b) 4 - cursor b)"
      by (simp add: HasSpaceFor_offset AlignUp_4_padding)
    have ge: "cursor b \<le> AlignUp (cursor b) 4" by (rule AlignUp_4_ge)
    from space have "AlignUp (cursor b) 4 \<le> buffer b + capacity b"
      using bounds ge by (simp add: HasSpaceFor_def GetRemainingBytes_def)
    then show ?thesis
      using Op_Align bounds ge
      by (simp add: Align_ok [OF space] cursor_in_region_def GetCursorOffset_def)
  next
    case (Op_UpdateData offset data sz)
    with assms have "buffer b + offset + sz \<le> cursor b"
      using bounds by (simp add: GetCursorOffset_def)
    then show ?thesis
      using Op_UpdateData bounds
      by (simp add: UpdateData_returns cursor_in_region_def GetCursorOffset_def)
  next
    case Op_Reset
    then show ?thesis
      by (simp add: Reset_def SetClean_def Let_def cursor_in_region_def GetCursorOffset_def)
  qed
qed

text \<open>The five operations on the owned buffer of 16 bytes after 3 emitted bytes.\<close>

theorem operations_keep_invariant_witness:
  "cursor_in_region (owned_16\<lparr>cursor := 4099\<rparr>)
   \<and> precondition (owned_16\<lparr>cursor := 4099\<rparr>) Op_Align
   \<and> precondition (owned_16\<lparr>cursor := 4099\<rparr>) (Op_EmitData [1, 2, 3, 4] 4)
   \<and> precondition (owned_16\<lparr>cursor := 4099\<rparr>) (Op_EmitZeroedBytes 2)
   \<and> precondition (owned_16\<lparr>cursor := 4099\<rparr>) (Op_UpdateData 1 [255] 1)
   \<and> (\<exists>b'. perform True (owned_16\<lparr>cursor := 4099\<rparr>) Op_Align = Inr b'
          \<and> cursor_in_region b' \<and> capacity b' = 16 \<and> 4099 \<le> cursor b')
   \<and> (\<exists>b'. perform True (owned_16\<lparr>cursor := 4099\<rparr>) (Op_EmitData [1, 2, 3, 4] 4) = Inr b'
          \<and> cursor_in_region b' \<and> capacity b' = 16 \<and> 4099 \<le> cursor b')
   \<and> (\<exists>b'. perform True (owned_16\<lparr>cursor := 4099\<rparr>) (Op_EmitZeroedBytes 2) = Inr b'
          \<and> cursor_in_region b' \<and> capacity b' = 16 \<and> 4099 \<le> cursor b')
   \<and> (\<exists>b'. perform True (owned_16\<lparr>cursor := 4099\<rparr>) (Op_UpdateData 1 [255] 1) = Inr b'
          \<and> cursor_in_region b' \<and> capacity b' = 16 \<and> 4099 \<le> cursor b')
   \<and> (\<exists>b'. perform True (owned_16\<lparr>cursor := 4099\<rparr>) Op_Reset = Inr b'
          \<and> cursor_in_region b' \<and> capacity b' = 16)"
proof -
  have inv: "cursor_in_region (owned_16\<lparr>cursor := 4099\<rparr>)"
    by (simp add: cursor_in_region_def owned_16_def)
  have p1: "precondition (owned_16\<lparr>cursor := 4099\<rparr>) Op_Align"
    by (simp add: GetCursorOffset_def owned_16_def)
  have p2: "precondition (owned_16\<lparr>cursor := 4099\<rparr>) (Op_EmitData [1, 2, 3, 4] 4)"
    by (simp add: GetCursorOffset_def owned_16_def)
  have p3: "precondition (owned_16\<lparr>cursor := 4099\<rparr>) (Op_EmitZeroedBytes 2)"
    by (simp add: GetCursorOffset_def owned_16_def)
  have p4: "precondition (owned_16\<lparr>cursor := 4099\<rparr>) (Op_UpdateData 1 [255] 1)"
    by (simp add: GetCursorOffset_def owned_16_def)
  have p5: "precondition (owned_16\<lparr>cursor := 4099\<rparr>) Op_Reset" by simp
  show ?thesis
    using inv p1 p2 p3 p4
      operations_keep_invariant [OF inv p1, of True]
      operations_keep_invariant [OF inv p2, of True]
      operations_keep_invariant [OF inv p3, of True]
      operations_keep_invariant [OF inv p4, of True]
      operations_keep_invariant [OF inv p5, of True]
    by (auto simp: owned_16_def)
qed

end
